theory Spec2Isabelle
  imports Main
begin

section \<open>Data model\<close>

text \<open>
  Go errors are values. An error coming from the operating system or a library is opaque
  (\<open>External\<close>); \<open>fmt.Errorf("msg")\<close> is \<open>Msg\<close> and \<open>fmt.Errorf("msg: %w", err)\<close> is
  \<open>Wrapped\<close>.
\<close>

datatype error = External string | Msg string | Wrapped string error

text \<open>Severity levels of the logging library, as the program names them.\<close>

datatype level = LevelDebug | LevelInfo | LevelWarn | LevelError

text \<open>
  \<open>internal/config/config.go\<close>: the three sections of the configuration. \<open>time.Duration\<close>
  is a count of nanoseconds and \<open>MaxRetries\<close> a Go \<open>int\<close>; both are modelled as \<open>int\<close>.
  The only arithmetic on them is \<open>MaxRetries - 1\<close> and \<open>attempt++\<close> inside the delivery
  loop, where \<open>attempt < MaxRetries\<close> held at the loop test and every configuration the
  server stores has \<open>MaxRetries > 0\<close>, so no machine operation leaves the range.
\<close>

record SMTPConfig =
  Host :: string
  Port :: string
  FromAddr :: string
  AuthUser :: string
  AuthPass :: string

record ServerConfig =
  InternalAddr :: string
  ExternalAddr :: string
  Timeout :: int
  RetryDelay :: int
  MaxRetries :: int
  AllowedOrigins :: "string list"

text \<open>\<open>logger.Config\<close>, with the fields that \<open>defaultConfig\<close> sets.\<close>

record LoggerConfig =
  Level :: level
  Name :: string
  Directory :: string
  BufferSize :: int
  MaxSizeMB :: int
  MaxTotalSizeMB :: int
  MinDiskFreeMB :: int

record Config =
  SMTP :: SMTPConfig
  Server :: ServerConfig
  Logging :: LoggerConfig

definition second :: int where
  "second = 1000000000"

definition minute :: int where
  "minute = 60 * second"

definition defaultConfigBase :: string where
  "defaultConfigBase = ''/usr/local/etc''"

definition defaultConfig :: Config where
  "defaultConfig =
     \<lparr> SMTP = \<lparr> Host = ''smtp.gmail.com'', Port = ''587'', FromAddr = ''user@example.com'',
                AuthUser = ''user@example.com'', AuthPass = ''0123456789AB'' \<rparr>,
       Server = \<lparr> InternalAddr = ''localhost:2525'', ExternalAddr = ''localhost:8845'',
                  Timeout = 3 * minute, RetryDelay = 10 * second, MaxRetries = 3,
                  AllowedOrigins = [''https://example.com'', ''http://example.com''] \<rparr>,
       Logging = \<lparr> Level = LevelDebug, Name = '''', Directory = ''/var/log'',
                   BufferSize = 1000, MaxSizeMB = 100, MaxTotalSizeMB = 1000,
                   MinDiskFreeMB = 500 \<rparr> \<rparr>"

section \<open>Configuration loading and validation\<close>

text \<open>
  \<open>validateConfig\<close>: the three checks in the order of the source; \<open>None\<close> is Go's
  \<open>nil\<close> error.
\<close>

definition validateConfig :: "Config \<Rightarrow> error option" where
  "validateConfig config =
     (if Host (SMTP config) = '''' \<or> Port (SMTP config) = '''' \<or>
         FromAddr (SMTP config) = '''' \<or> AuthUser (SMTP config) = '''' \<or>
         AuthPass (SMTP config) = ''''
      then Some (Msg ''missing required SMTP configuration'')
      else if InternalAddr (Server config) = '''' \<or> Timeout (Server config) \<le> 0 \<or>
              RetryDelay (Server config) \<le> 0 \<or> MaxRetries (Server config) \<le> 0
      then Some (Msg ''invalid internal server configuration'')
      else if Directory (Logging config) = '''' \<or> BufferSize (Logging config) \<le> 0
      then Some (Msg ''invalid logging configuration'')
      else None)"

text \<open>
  The operating system, the TOML library, the logging library and the network as the
  program meets them: the outcome of each call the program makes. \<open>None\<close> is a \<open>nil\<close>
  error.
\<close>

record opsys =
  mkdirAll :: "string \<Rightarrow> error option"
  stat :: "string \<Rightarrow> error option"
  readFile :: "string \<Rightarrow> error + string"
  writeFile :: "string \<Rightarrow> string \<Rightarrow> error option"
  tomlUnmarshal :: "string \<Rightarrow> Config \<Rightarrow> error + Config"
  tomlMarshal :: "Config \<Rightarrow> error + string"
  loggerInit :: "LoggerConfig \<Rightarrow> error option"
  netListen :: "string \<Rightarrow> error option"

text \<open>
  \<open>filepath.Join\<close> of a clean directory and one more element that holds no separator and
  no dot element, which is how \<open>Load\<close> and \<open>Save\<close> call it on the program names.
\<close>

definition joinPath :: "string \<Rightarrow> string \<Rightarrow> string" where
  "joinPath dir elem = dir @ ''/'' @ elem"

definition configDir :: "string \<Rightarrow> string" where
  "configDir name = joinPath defaultConfigBase name"

definition configPath :: "string \<Rightarrow> string" where
  "configPath name = joinPath (configDir name) (name @ ''.toml'')"

text \<open>
  \<open>Load\<close> returns Go's triple \<open>(*Config, bool, error)\<close>: either a \<open>nil\<close> pointer with an
  error, or a configuration, the flag \<open>configExists\<close> and a \<open>nil\<close> error. The flag returned
  beside an error is read by no caller, so the result is a sum. \<open>Load\<close> starts from the
  defaults, overwrites them from the file when \<open>os.Stat\<close> finds it, and validates the
  result in both cases.
\<close>

definition startConfig :: "string \<Rightarrow> Config" where
  "startConfig name =
     defaultConfig \<lparr> Logging := (Logging defaultConfig)
        \<lparr> Name := name, Directory := joinPath (Directory (Logging defaultConfig)) name \<rparr> \<rparr>"

definition Load :: "opsys \<Rightarrow> string \<Rightarrow> error + Config \<times> bool" where
  "Load os name =
     (case mkdirAll os (configDir name) of
        Some err \<Rightarrow> Inl (Wrapped ''failed to create config directory'' err)
      | None \<Rightarrow>
          (let (read, configExists) =
             (case stat os (configPath name) of
                None \<Rightarrow>
                  (case readFile os (configPath name) of
                     Inl err \<Rightarrow> (Inl (Wrapped ''failed to read config file'' err), True)
                   | Inr data \<Rightarrow>
                       (case tomlUnmarshal os data (startConfig name) of
                          Inl err \<Rightarrow> (Inl (Wrapped ''failed to parse config file'' err), True)
                        | Inr config \<Rightarrow> (Inr config, True)))
              | Some _ \<Rightarrow> (Inr (startConfig name), False))
           in case read of
                Inl err \<Rightarrow> Inl err
              | Inr config \<Rightarrow>
                  (case validateConfig config of
                     Some err \<Rightarrow> Inl err
                   | None \<Rightarrow> Inr (config, configExists))))"

text \<open>\<open>Save\<close>; the pointer it is given by \<open>main\<close> is never \<open>nil\<close>.\<close>

definition Save :: "opsys \<Rightarrow> Config \<Rightarrow> string \<Rightarrow> error option" where
  "Save os config name =
     (case tomlMarshal os config of
        Inl err \<Rightarrow> Some (Wrapped ''failed to marshal config'' err)
      | Inr data \<Rightarrow>
          (case writeFile os (configPath name) data of
             Some err \<Rightarrow> Some (Wrapped ''failed to write config file'' err)
           | None \<Rightarrow> None))"

section \<open>The relay server\<close>

text \<open>
  What the server does that can be seen from outside: log entries (level and message),
  lines on standard error, the call of the mail library that opens the SMTP session
  (address, the user, password and host given to \<open>smtp.PlainAuth\<close>, the TLS server name,
  the message),
  the \<open>select\<close> between \<open>time.After\<close> and \<open>ctx.Done\<close> (the duration given to
  \<open>time.After\<close> and the case taken), the deadline given to \<open>context.WithTimeout\<close>, and
  the calls on a connection.
\<close>

record EmailRequest =
  Recipient :: string
  Subject :: string
  Body :: string

record Email =
  To :: "string list"
  From :: string
  Subject :: string
  Text :: string

datatype select_case = TimerFired | CtxDone

datatype event =
    Log level string
  | Stderr string
  | SendWithStartTLS string string string string string Email
  | Select int select_case
  | WithTimeout int
  | LoggerShutdown
  | Dial string
  | ConnWrite string
  | ConnClose

text \<open>
  Pointers to \<open>config.Config\<close> are addresses, and the heap gives the contents of the
  object at each address.
\<close>

type_synonym addr = nat

type_synonym heap = "addr \<Rightarrow> Config"

definition appName :: string where
  "appName = ''mhrs''"

subsection \<open>Reload\<close>

text \<open>
  \<open>reloadConfig\<close> returns the heap, what it logged and its error. The assignment
  \<open>*cfg = *newConfig\<close> overwrites the object at \<open>cfg\<close>.
\<close>

definition reloadConfig :: "opsys \<Rightarrow> heap \<Rightarrow> addr \<Rightarrow> heap \<times> event list \<times> error option" where
  "reloadConfig os h cfg =
     (case Load os appName of
        Inl err \<Rightarrow> (h, [], Some (Wrapped ''failed to load new configuration'' err))
      | Inr (newConfig, configExists) \<Rightarrow>
          if \<not> configExists then (h, [], Some (Msg ''configuration file not found''))
          else (case loggerInit os (Logging newConfig) of
                  Some err \<Rightarrow> (h, [], Some (Wrapped ''failed to reinitialize logger'' err))
                | None \<Rightarrow>
                    (h(cfg := newConfig),
                     [Log LevelInfo ''Configuration reloaded successfully''], None)))"

text \<open>
  \<open>handleSignals\<close> on the signals that arrive, each with the environment at that moment.
  The result is the heap, the log and whether \<open>cancel\<close> was called. When the signals
  so far are used up the handler is still waiting. While the server runs nothing but this
  handler cancels the context, so the \<open>ctx.Done\<close> case of its \<open>select\<close> is not taken
  before a shutdown signal.
\<close>

datatype signal = SIGHUP | SIGINT | SIGTERM

fun handleSignals_loop ::
  "(signal \<times> opsys) list \<Rightarrow> heap \<Rightarrow> addr \<Rightarrow> heap \<times> event list \<times> bool" where
  "handleSignals_loop [] h cfg = (h, [], False)"
| "handleSignals_loop ((SIGHUP, os) # sigs) h cfg =
     (case reloadConfig os h cfg of
        (h', evs, Some err) \<Rightarrow>
          (case handleSignals_loop sigs h' cfg of
             (h'', evs', cancelled) \<Rightarrow>
               (h'', evs @ Log LevelError ''Failed to reload configuration'' # evs', cancelled))
      | (h', evs, None) \<Rightarrow>
          (case handleSignals_loop sigs h' cfg of
             (h'', evs', cancelled) \<Rightarrow> (h'', evs @ evs', cancelled)))"
| "handleSignals_loop ((sig, os) # sigs) h cfg =
     (h, [Log LevelInfo ''Received shutdown signal''], True)"

definition handleSignals ::
  "(signal \<times> opsys) list \<Rightarrow> heap \<Rightarrow> addr \<Rightarrow> heap \<times> event list \<times> bool" where
  "handleSignals sigs h cfg =
     (case handleSignals_loop sigs h cfg of
        (h', evs, cancelled) \<Rightarrow> (h', Log LevelDebug ''Starting signal handler'' # evs, cancelled))"

subsection \<open>Delivery\<close>

text \<open>
  The network as one delivery meets it: the result of the mail library's
  \<open>SendWithStartTLS\<close> in each attempt, and the case that the \<open>select\<close> after a failed
  attempt takes. \<open>CtxDone\<close> covers the server's cancellation and the request's deadline.
\<close>

record netenv =
  smtpResult :: "int \<Rightarrow> error option"
  selectCase :: "int \<Rightarrow> select_case"

text \<open>
  \<open>sendEmail\<close>, given the result of the library call: the call
  \<open>e.SendWithStartTLS(cfg.SMTP.Host+":"+cfg.SMTP.Port, auth, tlsConfig)\<close> with
  \<open>auth = smtp.PlainAuth("", cfg.SMTP.AuthUser, cfg.SMTP.AuthPass, cfg.SMTP.Host)\<close> and
  \<open>tlsConfig.ServerName = cfg.SMTP.Host\<close>, between its log entries.
\<close>

definition smtpCall :: "Config \<Rightarrow> Email \<Rightarrow> event" where
  "smtpCall cfg e =
     SendWithStartTLS (Host (SMTP cfg) @ '':'' @ Port (SMTP cfg))
       (AuthUser (SMTP cfg)) (AuthPass (SMTP cfg)) (Host (SMTP cfg)) (Host (SMTP cfg)) e"

definition sendEmail :: "error option \<Rightarrow> Email \<Rightarrow> Config \<Rightarrow> event list \<times> error option" where
  "sendEmail result e cfg =
     (let before = [Log LevelDebug ''Preparing to send email'',
                    Log LevelDebug ''Initiating SMTP connection'', smtpCall cfg e]
      in case result of
           Some err \<Rightarrow>
             (before @ [Log LevelError ''Failed to send email''],
              Some (Wrapped ''failed to send email'' err))
         | None \<Rightarrow> (before @ [Log LevelDebug ''Email sent successfully''], None))"

text \<open>
  One pass through the body of the \<open>for\<close> loop of \<open>processEmail\<close>, on the contents
  \<open>cfg\<close> of the configuration object: the events, and whether the loop goes on to
  \<open>attempt++\<close> or the function returns.
\<close>

datatype control = Continue | Return

definition attemptBody :: "netenv \<Rightarrow> Email \<Rightarrow> Config \<Rightarrow> int \<Rightarrow> event list \<times> control" where
  "attemptBody env e cfg attempt =
     (case sendEmail (smtpResult env attempt) e cfg of
        (evs, Some err) \<Rightarrow>
          (let failed = Log LevelDebug ''Attempting to send email'' # evs @
                        [Log LevelError ''Email attempt failed'']
           in if attempt < MaxRetries (Server cfg) - 1
              then (case selectCase env attempt of
                      TimerFired \<Rightarrow>
                        (failed @ [Select (RetryDelay (Server cfg)) TimerFired], Continue)
                    | CtxDone \<Rightarrow>
                        (failed @ [Select (RetryDelay (Server cfg)) CtxDone,
                                   Log LevelDebug ''Email processing cancelled''], Return))
              else (failed, Continue))
      | (evs, None) \<Rightarrow>
          (Log LevelDebug ''Attempting to send email'' # evs @
           [Log LevelInfo ''Email sent successfully''], Return))"

text \<open>
  The loop reads \<open>cfg.Server.MaxRetries\<close> through the pointer at every test.
\<close>

function processEmail_loop :: "netenv \<Rightarrow> Email \<Rightarrow> heap \<Rightarrow> addr \<Rightarrow> int \<Rightarrow> event list" where
  "processEmail_loop env e h cfg attempt =
     (if attempt < MaxRetries (Server (h cfg))
      then (case attemptBody env e (h cfg) attempt of
              (evs, Return) \<Rightarrow> evs
            | (evs, Continue) \<Rightarrow> evs @ processEmail_loop env e h cfg (attempt + 1))
      else [])"
  by pat_completeness auto
termination
  by (relation "measure (\<lambda>(env, e, h, cfg, attempt). nat (MaxRetries (Server (h cfg)) - attempt))")
     auto

definition buildEmail :: "EmailRequest \<Rightarrow> Config \<Rightarrow> Email" where
  "buildEmail req cfg =
     \<lparr> To = [Recipient req], From = FromAddr (SMTP cfg),
       Subject = EmailRequest.Subject req, Text = Body req \<rparr>"

definition processEmail :: "netenv \<Rightarrow> EmailRequest \<Rightarrow> heap \<Rightarrow> addr \<Rightarrow> event list" where
  "processEmail env req h cfg =
     Log LevelInfo ''Processing email request'' #
     processEmail_loop env (buildEmail req (h cfg)) h cfg 0"

text \<open>
  A delivery that runs while the signal handler reloads. In each pass of the loop the
  delivery is suspended twice, in the library's transport call and then in the wait (a
  pass without a wait goes straight on to the next loop test), and a \<open>SIGHUP\<close> can be
  handled meanwhile. \<open>applyReload\<close> is the effect on the heap of one such reload, or of
  none; \<open>sigCfg\<close> is the pointer that \<open>handleSignals\<close> holds.
\<close>

definition applyReload :: "opsys option \<Rightarrow> addr \<Rightarrow> heap \<Rightarrow> heap" where
  "applyReload r sigCfg h =
     (case r of None \<Rightarrow> h | Some os \<Rightarrow> fst (reloadConfig os h sigCfg))"

text \<open>
  One pass through the body of the loop when a reload may complete while the transport
  call is in flight: \<open>sendEmail\<close> has read the object before the call, as \<open>before\<close>; the
  test \<open>attempt < cfg.Server.MaxRetries-1\<close> and \<open>time.After(cfg.Server.RetryDelay)\<close>
  read it after the call, as \<open>after\<close>. (The fields that the log entries after the call
  carry are not part of the events.)
\<close>

definition attemptBody_during ::
  "netenv \<Rightarrow> Email \<Rightarrow> Config \<Rightarrow> Config \<Rightarrow> int \<Rightarrow> event list \<times> control" where
  "attemptBody_during env e before after attempt =
     (case sendEmail (smtpResult env attempt) e before of
        (evs, Some err) \<Rightarrow>
          (let failed = Log LevelDebug ''Attempting to send email'' # evs @
                        [Log LevelError ''Email attempt failed'']
           in if attempt < MaxRetries (Server after) - 1
              then (case selectCase env attempt of
                      TimerFired \<Rightarrow>
                        (failed @ [Select (RetryDelay (Server after)) TimerFired], Continue)
                    | CtxDone \<Rightarrow>
                        (failed @ [Select (RetryDelay (Server after)) CtxDone,
                                   Log LevelDebug ''Email processing cancelled''], Return))
              else (failed, Continue))
      | (evs, None) \<Rightarrow>
          (Log LevelDebug ''Attempting to send email'' # evs @
           [Log LevelInfo ''Email sent successfully''], Return))"

text \<open>
  For each pass of the loop, \<open>reloads\<close> gives a pair: the reload that completes while
  the transport call of the pass is in flight, and the reload that completes after the
  retry test of the pass and before the next loop test (during the wait, when the pass
  has one). The loop test and \<open>sendEmail\<close> read the object as the pass found it, the
  retry test and \<open>time.After\<close> read it as the first reload left it, and the next pass
  finds it as the second reload left it. Reloads are placed at these two points only: one
  that lands between the loop test and the transport call, between two reads of
  \<open>sendEmail\<close>, or between the retry test and \<open>time.After\<close> is not rendered. When
  \<open>reloads\<close> is used up the delivery runs on undisturbed.
\<close>

fun processEmail_loop_reloading ::
  "netenv \<Rightarrow> Email \<Rightarrow> (opsys option \<times> opsys option) list \<Rightarrow> addr \<Rightarrow> heap \<Rightarrow> addr \<Rightarrow> int \<Rightarrow>
   event list" where
  "processEmail_loop_reloading env e [] sigCfg h cfg attempt =
     processEmail_loop env e h cfg attempt"
| "processEmail_loop_reloading env e ((duringCall, afterTest) # reloads) sigCfg h cfg attempt =
     (if attempt < MaxRetries (Server (h cfg))
      then (case attemptBody_during env e (h cfg) (applyReload duringCall sigCfg h cfg) attempt of
              (evs, Return) \<Rightarrow> evs
            | (evs, Continue) \<Rightarrow>
                evs @ processEmail_loop_reloading env e reloads sigCfg
                        (applyReload afterTest sigCfg (applyReload duringCall sigCfg h))
                        cfg (attempt + 1))
      else [])"

definition processEmail_reloading ::
  "netenv \<Rightarrow> EmailRequest \<Rightarrow> (opsys option \<times> opsys option) list \<Rightarrow> addr \<Rightarrow> heap \<Rightarrow> addr \<Rightarrow>
   event list" where
  "processEmail_reloading env req reloads sigCfg h cfg =
     Log LevelInfo ''Processing email request'' #
     processEmail_loop_reloading env (buildEmail req (h cfg)) reloads sigCfg h cfg 0"

subsection \<open>Connections\<close>

text \<open>
  An accepted connection: the peer's address and the outcome of
  \<open>json.NewDecoder(conn).Decode(&req)\<close> on its stream. \<open>conn.Close\<close> is deferred, so it
  is the last thing on every path. The handler waits for the delivery it starts.
\<close>

record conn =
  remoteAddr :: string
  decodeResult :: "error + EmailRequest"

definition handleConnection :: "netenv \<Rightarrow> conn \<Rightarrow> heap \<Rightarrow> addr \<Rightarrow> event list" where
  "handleConnection env c h cfg =
     Log LevelInfo ''New connection received'' #
     Log LevelDebug ''Decoding email request'' #
     (case decodeResult c of
        Inl err \<Rightarrow> [Log LevelError ''Failed to decode email request'']
      | Inr req \<Rightarrow>
          Log LevelDebug ''Successfully decoded email request'' #
          WithTimeout (Timeout (Server (h cfg))) #
          processEmail env req h cfg) @
     [ConnClose]"

subsection \<open>Startup\<close>

text \<open>
  \<open>main\<close> up to the start of its goroutines. \<open>os.Exit(1)\<close> ends the process with status
  1; \<open>return\<close> from \<open>main\<close> runs the deferred \<open>logger.Shutdown\<close> and ends the process
  with status 0. \<open>a\<close> is the address of the object that \<open>Load\<close> returned. \<open>Serving\<close>
  holds the heap and the pointers given to \<open>go handleSignals(ctx, cancel, sigChan, cfg)\<close>
  and to \<open>go acceptConnections(ctx, listener, cfg)\<close>.
\<close>

datatype outcome = Exit int | Serving heap addr addr

definition main :: "opsys \<Rightarrow> heap \<Rightarrow> addr \<Rightarrow> event list \<times> outcome" where
  "main os h a =
     (case Load os appName of
        Inl err \<Rightarrow> ([Stderr ''Failed to load configuration''], Exit 1)
      | Inr (c, configExists) \<Rightarrow>
          (let saved = (if \<not> configExists
                        then (case Save os c appName of
                                Some err \<Rightarrow> [Stderr ''Failed to save configuration'']
                              | None \<Rightarrow> [])
                        else [])
           in case loggerInit os (Logging c) of
                Some err \<Rightarrow> (saved @ [Stderr ''Failed to initialize logger''], Exit 1)
              | None \<Rightarrow>
                  (case netListen os (InternalAddr (Server c)) of
                     Some err \<Rightarrow>
                       (saved @ [Log LevelInfo ''Starting Mail Hub Relay Service'',
                                 Log LevelError ''Failed to start TCP listener'',
                                 LoggerShutdown], Exit 0)
                   | None \<Rightarrow>
                       (saved @ [Log LevelInfo ''Starting Mail Hub Relay Service''],
                        Serving (h(a := c)) a a))))"

section \<open>The request producers\<close>

text \<open>
  What a producer meets when it talks to the relay: the outcome of dialling, of
  \<open>SetWriteDeadline\<close>, of \<open>json.Marshal\<close> and of \<open>conn.Write\<close>.
\<close>

record dialenv =
  dial :: "string \<Rightarrow> error option"
  setWriteDeadline :: "error option"
  jsonMarshal :: "EmailRequest \<Rightarrow> error + string"
  connWrite :: "string \<Rightarrow> error option"

text \<open>\<open>cmd/mhrc/main.go\<close>, \<open>sendToMHRS\<close>.\<close>

definition mhrc_sendToMHRS :: "dialenv \<Rightarrow> EmailRequest \<Rightarrow> Config \<Rightarrow> event list \<times> error option" where
  "mhrc_sendToMHRS env req cfg =
     (case dial env (InternalAddr (Server cfg)) of
        Some err \<Rightarrow> ([], Some (Wrapped ''error connecting to MHRS'' err))
      | None \<Rightarrow>
          (case setWriteDeadline env of
             Some err \<Rightarrow>
               ([Dial (InternalAddr (Server cfg)), ConnClose],
                Some (Wrapped ''error setting write deadline'' err))
           | None \<Rightarrow>
               (case jsonMarshal env req of
                  Inl err \<Rightarrow>
                    ([Dial (InternalAddr (Server cfg)), ConnClose],
                     Some (Wrapped ''error creating JSON'' err))
                | Inr jsonData \<Rightarrow>
                    (case connWrite env (jsonData @ [CHR 0x0A]) of
                       Some err \<Rightarrow>
                         ([Dial (InternalAddr (Server cfg)),
                           ConnWrite (jsonData @ [CHR 0x0A]), ConnClose],
                          Some (Wrapped ''error sending data'' err))
                     | None \<Rightarrow>
                         ([Dial (InternalAddr (Server cfg)),
                           ConnWrite (jsonData @ [CHR 0x0A]), ConnClose], None)))))"

text \<open>\<open>cmd/submitf/main.go\<close>, \<open>formatEmailBody\<close> and \<open>sendToMHRS\<close>.\<close>

record FormData =
  Name :: string
  Email :: string
  Message :: string

definition formatEmailBody :: "FormData \<Rightarrow> string" where
  "formatEmailBody form =
     ''New contact form submission:'' @ [CHR 0x0A, CHR 0x0A] @
     ''Name: '' @ FormData.Name form @ [CHR 0x0A] @
     ''Email: '' @ FormData.Email form @ [CHR 0x0A, CHR 0x0A] @
     ''Message:'' @ [CHR 0x0A] @ Message form"

definition submitf_sendToMHRS :: "dialenv \<Rightarrow> FormData \<Rightarrow> Config \<Rightarrow> event list \<times> error option" where
  "submitf_sendToMHRS env form cfg =
     (let req = \<lparr> Recipient = FromAddr (SMTP cfg),
                  EmailRequest.Subject = ''Contact Form Submission from '' @ FormData.Name form,
                  Body = formatEmailBody form \<rparr>;
          started = [Log LevelDebug ''Preparing email request for MHRS''];
          connected = started @ [Log LevelDebug ''Connecting to MHRS'',
                                 Dial (InternalAddr (Server cfg))]
      in (case jsonMarshal env req of
            Inl err \<Rightarrow> (started, Some err)
          | Inr jsonData \<Rightarrow>
              (case dial env (InternalAddr (Server cfg)) of
                 Some err \<Rightarrow> (started @ [Log LevelDebug ''Connecting to MHRS''], Some err)
               | None \<Rightarrow>
                   (case setWriteDeadline env of
                      Some err \<Rightarrow>
                        (connected @ [Log LevelError ''Failed to set write deadline'',
                                      ConnClose], Some err)
                    | None \<Rightarrow>
                        (case connWrite env jsonData of
                           Some err \<Rightarrow>
                             (connected @ [ConnWrite jsonData,
                                           Log LevelError ''Failed to write to MHRS'',
                                           ConnClose], Some err)
                         | None \<Rightarrow>
                             (connected @ [ConnWrite jsonData,
                                           Log LevelInfo ''Email request sent to MHRS'',
                                           ConnClose], None))))))"

section \<open>Reading a trace\<close>

fun isTransport :: "event \<Rightarrow> bool" where
  "isTransport (SendWithStartTLS address user pass host serverName e) = True"
| "isTransport ev = False"

fun isSelect :: "event \<Rightarrow> bool" where
  "isSelect (Select d c) = True"
| "isSelect ev = False"

definition transportCalls :: "event list \<Rightarrow> nat" where
  "transportCalls evs = length (filter isTransport evs)"


text \<open>The bytes given to \<open>conn.Write\<close>, call by call.\<close>

fun written :: "event list \<Rightarrow> string list" where
  "written [] = []"
| "written (ConnWrite bytes # evs) = bytes # written evs"
| "written (ev # evs) = written evs"



text \<open>
  What an event shows of the configuration it was made from: a transport call shows the
  SMTP section and the sender address put into the message, a wait shows the retry delay.
\<close>

fun readsFrom :: "Config \<Rightarrow> event \<Rightarrow> bool" where
  "readsFrom c (SendWithStartTLS address user pass host serverName e) =
     (address = Host (SMTP c) @ '':'' @ Port (SMTP c) \<and> user = AuthUser (SMTP c) \<and>
      pass = AuthPass (SMTP c) \<and> host = Host (SMTP c) \<and> serverName = Host (SMTP c) \<and>
      From e = FromAddr (SMTP c))"
| "readsFrom c (Select d sc) = (d = RetryDelay (Server c))"
| "readsFrom c ev = True"

definition singleSnapshot :: "Config \<Rightarrow> event list \<Rightarrow> bool" where
  "singleSnapshot c evs = list_all (readsFrom c) evs"

text \<open>The address each transport call of a trace dials.\<close>

fun dialled :: "event list \<Rightarrow> string list" where
  "dialled [] = []"
| "dialled (SendWithStartTLS address user pass host serverName e # evs) = address # dialled evs"
| "dialled (ev # evs) = dialled evs"

text \<open>
  Two ways to compare traces made from different configurations: \<open>outline\<close> blanks what
  a transport call shows of the SMTP section, and \<open>untimed\<close> blanks the duration of a
  wait.
\<close>

fun outline :: "event \<Rightarrow> event" where
  "outline (SendWithStartTLS address user pass host serverName e) =
     SendWithStartTLS [] [] [] [] [] e"
| "outline ev = ev"

fun untimed :: "event \<Rightarrow> event" where
  "untimed (Select d c) = Select 0 c"
| "untimed ev = ev"

text \<open>The events a delivery can make: log entries, transport calls and waits.\<close>

fun isDelivery :: "event \<Rightarrow> bool" where
  "isDelivery (Log l m) = True"
| "isDelivery (SendWithStartTLS address user pass host serverName e) = True"
| "isDelivery (Select d c) = True"
| "isDelivery ev = False"

section \<open>Example inputs\<close>

text \<open>
  A request, a network where the first two transport calls fail and every wait runs to
  its end, and a heap that holds the default configuration of the server at every address.
\<close>

definition hello :: EmailRequest where
  "hello = \<lparr> Recipient = ''a@b.com'', EmailRequest.Subject = ''hi'', Body = ''hello'' \<rparr>"

definition flaky :: netenv where
  "flaky = \<lparr> smtpResult = (\<lambda>k. if k < 2 then Some (External ''connection refused'') else None),
              selectCase = (\<lambda>k. TimerFired) \<rparr>"

definition defaults :: heap where
  "defaults = (\<lambda>a. startConfig appName)"


definition doneAtStart :: netenv where
  "doneAtStart = \<lparr> smtpResult = (\<lambda>k. Some (External ''connection refused'')),
                  selectCase = (\<lambda>k. CtxDone) \<rparr>"

text \<open>
  Environments of the server: one where every call succeeds and there is no configuration
  file; one where the file exists and names another SMTP host; one where the file sets
  \<open>max_retries\<close> to 0; and ones where the logger cannot be initialised or the listen
  address is taken.
\<close>

definition noFile :: opsys where
  "noFile = \<lparr> mkdirAll = (\<lambda>path. None),
               stat = (\<lambda>path. Some (External ''no such file or directory'')),
               readFile = (\<lambda>path. Inl (External ''no such file or directory'')),
               writeFile = (\<lambda>path data. None),
               tomlUnmarshal = (\<lambda>data config. Inr config),
               tomlMarshal = (\<lambda>config. Inr []),
               loggerInit = (\<lambda>l. None),
               netListen = (\<lambda>address. None) \<rparr>"

definition otherHost :: opsys where
  "otherHost = noFile \<lparr> stat := (\<lambda>path. None),
       readFile := (\<lambda>path. Inr ''[smtp] host = smtp.example.org''),
       tomlUnmarshal := (\<lambda>data config.
          Inr (config \<lparr> SMTP := (SMTP config) \<lparr> Host := ''smtp.example.org'' \<rparr> \<rparr>)) \<rparr>"

definition zeroRetries :: opsys where
  "zeroRetries = noFile \<lparr> stat := (\<lambda>path. None),
       readFile := (\<lambda>path. Inr ''[server] max_retries = 0''),
       tomlUnmarshal := (\<lambda>data config.
          Inr (config \<lparr> Server := (Server config) \<lparr> MaxRetries := 0 \<rparr> \<rparr>)) \<rparr>"

definition noLogger :: opsys where
  "noLogger = noFile \<lparr> loggerInit := (\<lambda>l. Some (External ''permission denied'')) \<rparr>"

definition portTaken :: opsys where
  "portTaken = noFile \<lparr> netListen := (\<lambda>address. Some (External ''address already in use'')) \<rparr>"



text \<open>
  A connection whose stream is not JSON, a relay that accepts connections (with the
  bytes that \<open>json.Marshal\<close> returns), and a form submission.
\<close>

definition garbled :: conn where
  "garbled = \<lparr> remoteAddr = ''127.0.0.1:40000'',
                decodeResult = Inl (External ''invalid character'') \<rparr>"

definition relayUp :: "string \<Rightarrow> dialenv" where
  "relayUp json = \<lparr> dial = (\<lambda>address. None), setWriteDeadline = None,
                     jsonMarshal = (\<lambda>req. Inr json), connWrite = (\<lambda>bytes. None) \<rparr>"

definition contact :: FormData where
  "contact = \<lparr> Name = ''Ann'', Email = ''ann@example.com'', Message = ''hello'' \<rparr>"

section \<open>The delivery loop\<close>

declare processEmail_loop.simps [simp del]

lemma attemptBody_calls: "transportCalls (fst (attemptBody env e c a)) = 1"
  by (simp add: attemptBody_def sendEmail_def smtpCall_def transportCalls_def Let_def
      split: option.split select_case.split)

lemma attemptBody_Return:
  "snd (attemptBody env e c a) = Return \<longleftrightarrow>
     smtpResult env a = None \<or> (a < MaxRetries (Server c) - 1 \<and> selectCase env a = CtxDone)"
  by (simp add: attemptBody_def sendEmail_def Let_def
      split: option.split select_case.split)


lemma attemptBody_prefix:
  "\<exists>rest. fst (attemptBody env e c a) =
     [Log LevelDebug ''Attempting to send email'', Log LevelDebug ''Preparing to send email'',
      Log LevelDebug ''Initiating SMTP connection'', smtpCall c e] @ rest"
  by (simp add: attemptBody_def sendEmail_def Let_def
      split: option.split select_case.split)

lemma transportCalls_append: "transportCalls (xs @ ys) = transportCalls xs + transportCalls ys"
  by (simp add: transportCalls_def)


lemma loop_stop:
  "\<not> a < MaxRetries (Server (h cfg)) \<Longrightarrow> processEmail_loop env e h cfg a = []"
  by (subst processEmail_loop.simps) simp

lemma loop_step:
  "a < MaxRetries (Server (h cfg)) \<Longrightarrow>
   processEmail_loop env e h cfg a =
     (if snd (attemptBody env e (h cfg) a) = Return
      then fst (attemptBody env e (h cfg) a)
      else fst (attemptBody env e (h cfg) a) @ processEmail_loop env e h cfg (a + 1))"
  by (subst processEmail_loop.simps) (simp split: prod.split control.split)

lemma loop_calls_step:
  "a < MaxRetries (Server (h cfg)) \<Longrightarrow>
   transportCalls (processEmail_loop env e h cfg a) =
     (if smtpResult env a = None \<or>
         (a < MaxRetries (Server (h cfg)) - 1 \<and> selectCase env a = CtxDone)
      then 1
      else 1 + transportCalls (processEmail_loop env e h cfg (a + 1)))"
  by (simp only: loop_step [of a h cfg env e] attemptBody_Return transportCalls_append
        attemptBody_calls if_distrib [of transportCalls])

lemma loop_calls_zero:
  "\<not> a < MaxRetries (Server (h cfg)) \<Longrightarrow> transportCalls (processEmail_loop env e h cfg a) = 0"
  by (simp add: loop_stop transportCalls_def)



lemma loop_calls_ge:
  "a < MaxRetries (Server (h cfg)) \<Longrightarrow> 1 \<le> transportCalls (processEmail_loop env e h cfg a)"
  using loop_calls_step [of a h cfg env e] by (simp split: if_splits)




lemma processEmail_calls:
  "transportCalls (processEmail env req h cfg) =
     transportCalls (processEmail_loop env (buildEmail req (h cfg)) h cfg 0)"
  by (simp add: processEmail_def transportCalls_def)







text \<open>
  C9. With \<open>MaxRetries \<ge> 1\<close> a delivery starts with its first transport call, whatever
  the state of the context: nothing but log entries comes before the call, at least one
  call is made, and when the context is done from the start (every wait would end with
  the context done) exactly one call is made.
\<close>

theorem first_attempt_before_cancellation:
  assumes "1 \<le> MaxRetries (Server (h cfg))"
  shows "(\<exists>rest. processEmail env req h cfg =
            [Log LevelInfo ''Processing email request'',
             Log LevelDebug ''Attempting to send email'',
             Log LevelDebug ''Preparing to send email'',
             Log LevelDebug ''Initiating SMTP connection'',
             smtpCall (h cfg) (buildEmail req (h cfg))] @ rest) \<and>
         1 \<le> transportCalls (processEmail env req h cfg) \<and>
         ((\<forall>k. selectCase env k = CtxDone) \<longrightarrow>
            transportCalls (processEmail env req h cfg) = 1)"
proof -
  let ?e = "buildEmail req (h cfg)"
  from assms have lt: "0 < MaxRetries (Server (h cfg))" by simp
  obtain r where r: "fst (attemptBody env ?e (h cfg) 0) =
      [Log LevelDebug ''Attempting to send email'', Log LevelDebug ''Preparing to send email'',
       Log LevelDebug ''Initiating SMTP connection'', smtpCall (h cfg) ?e] @ r"
    using attemptBody_prefix [of env ?e "h cfg" 0] by blast
  have prefix: "\<exists>rest. processEmail env req h cfg =
            [Log LevelInfo ''Processing email request'',
             Log LevelDebug ''Attempting to send email'',
             Log LevelDebug ''Preparing to send email'',
             Log LevelDebug ''Initiating SMTP connection'',
             smtpCall (h cfg) ?e] @ rest"
    by (simp add: processEmail_def loop_step [of 0 h cfg env ?e, OF lt] r)
  have ge: "1 \<le> transportCalls (processEmail_loop env ?e h cfg 0)"
    using loop_calls_ge [of 0 h cfg env ?e] lt by simp
  have one: "transportCalls (processEmail_loop env ?e h cfg 0) = 1"
    if c: "\<forall>k. selectCase env k = CtxDone"
  proof (cases "0 < MaxRetries (Server (h cfg)) - 1")
    case True
    with c show ?thesis by (simp add: loop_calls_step [of 0 h cfg env ?e, OF lt])
  next
    case False
    then have "transportCalls (processEmail_loop env ?e h cfg (0 + 1)) = 0"
      using loop_calls_zero [of "0 + 1" h cfg env ?e] by simp
    then show ?thesis by (simp add: loop_calls_step [of 0 h cfg env ?e, OF lt])
  qed
  show ?thesis
    unfolding processEmail_calls using prefix ge one by blast
qed

theorem first_attempt_before_cancellation_witness:
  "1 \<le> MaxRetries (Server (defaults 0)) \<and> (\<forall>k. selectCase doneAtStart k = CtxDone) \<and>
   transportCalls (processEmail doneAtStart hello defaults 0) = 1 \<and>
   take 5 (processEmail doneAtStart hello defaults 0) =
     [Log LevelInfo ''Processing email request'',
      Log LevelDebug ''Attempting to send email'',
      Log LevelDebug ''Preparing to send email'',
      Log LevelDebug ''Initiating SMTP connection'',
      smtpCall (defaults 0) (buildEmail hello (defaults 0))]"
  using first_attempt_before_cancellation [of defaults 0 doneAtStart hello]
  by (simp add: processEmail_def processEmail_loop.simps attemptBody_def sendEmail_def
      doneAtStart_def defaults_def startConfig_def defaultConfig_def transportCalls_def
      smtpCall_def)

section \<open>Configuration, reload and startup\<close>

lemma validateConfig_None_iff:
  "validateConfig config = None \<longleftrightarrow>
     Host (SMTP config) \<noteq> [] \<and> Port (SMTP config) \<noteq> [] \<and> FromAddr (SMTP config) \<noteq> [] \<and>
     AuthUser (SMTP config) \<noteq> [] \<and> AuthPass (SMTP config) \<noteq> [] \<and>
     InternalAddr (Server config) \<noteq> [] \<and> 0 < Timeout (Server config) \<and>
     0 < RetryDelay (Server config) \<and> 0 < MaxRetries (Server config) \<and>
     Directory (Logging config) \<noteq> [] \<and> 0 < BufferSize (Logging config)"
  by (auto simp: validateConfig_def)

lemma Load_valid: "Load os name = Inr (c, ex) \<Longrightarrow> validateConfig c = None"
  by (auto simp: Load_def Let_def split: option.splits sum.splits prod.splits)

lemma Load_missing:
  "stat os (configPath name) = Some serr \<Longrightarrow>
   Load os name =
     (case mkdirAll os (configDir name) of
        Some err \<Rightarrow> Inl (Wrapped ''failed to create config directory'' err)
      | None \<Rightarrow> (case validateConfig (startConfig name) of
                   Some err \<Rightarrow> Inl err
                 | None \<Rightarrow> Inr (startConfig name, False)))"
  by (simp add: Load_def split: option.splits)

lemma startConfig_valid: "validateConfig (startConfig appName) = None"
  by (simp add: validateConfig_def startConfig_def defaultConfig_def appName_def joinPath_def
      minute_def second_def)

lemma reloadConfig_ok_iff:
  "snd (snd (reloadConfig os h cfg)) = None \<longleftrightarrow>
     (\<exists>c. Load os appName = Inr (c, True) \<and> loggerInit os (Logging c) = None)"
  by (auto simp: reloadConfig_def split: sum.splits prod.splits option.splits)

lemma reloadConfig_error_heap:
  "snd (snd (reloadConfig os h cfg)) = Some err \<Longrightarrow> fst (reloadConfig os h cfg) = h"
  by (auto simp: reloadConfig_def split: sum.splits prod.splits option.splits if_splits)

lemma reloadConfig_heap:
  "fst (reloadConfig os h cfg) =
     (case Load os appName of
        Inr (c, True) \<Rightarrow> (case loggerInit os (Logging c) of None \<Rightarrow> h(cfg := c) | Some err \<Rightarrow> h)
      | _ \<Rightarrow> h)"
  by (auto simp: reloadConfig_def split: sum.splits prod.splits option.splits bool.splits)

text \<open>
  C3. A reload that returns an error leaves the heap, and with it every configuration
  object, exactly as it was, and the signal handler logs the error and goes on with the
  next signal. A reload returns no error exactly when \<open>Load\<close> returned a validated
  configuration read from an existing file and the logger was reinitialised with it; the
  object at \<open>cfg\<close> is overwritten in that case only.
\<close>

theorem failed_reload_keeps_config:
  "(\<forall>err. snd (snd (reloadConfig os h cfg)) = Some err \<longrightarrow>
      fst (reloadConfig os h cfg) = h \<and>
      handleSignals_loop ((SIGHUP, os) # sigs) h cfg =
        (case handleSignals_loop sigs h cfg of
           (h', evs, stop) \<Rightarrow>
             (h', Log LevelError ''Failed to reload configuration'' # evs, stop))) \<and>
   (snd (snd (reloadConfig os h cfg)) = None \<longleftrightarrow>
      (\<exists>c. Load os appName = Inr (c, True) \<and> validateConfig c = None \<and>
           loggerInit os (Logging c) = None)) \<and>
   (fst (reloadConfig os h cfg) \<noteq> h \<longrightarrow>
      (\<exists>c. Load os appName = Inr (c, True) \<and> validateConfig c = None \<and>
           loggerInit os (Logging c) = None \<and> fst (reloadConfig os h cfg) = h(cfg := c)))"
proof -
  have a: "fst (reloadConfig os h cfg) = h \<and>
      handleSignals_loop ((SIGHUP, os) # sigs) h cfg =
        (case handleSignals_loop sigs h cfg of
           (h', evs, stop) \<Rightarrow>
             (h', Log LevelError ''Failed to reload configuration'' # evs, stop))"
    if e: "snd (snd (reloadConfig os h cfg)) = Some err" for err
  proof -
    have "reloadConfig os h cfg = (h, [], Some err)"
      using e by (auto simp: reloadConfig_def split: sum.splits prod.splits option.splits if_splits)
    then show ?thesis by simp
  qed
  have b: "snd (snd (reloadConfig os h cfg)) = None \<longleftrightarrow>
      (\<exists>c. Load os appName = Inr (c, True) \<and> validateConfig c = None \<and>
           loggerInit os (Logging c) = None)"
    using reloadConfig_ok_iff [of os h cfg] Load_valid [of os appName] by blast
  have c: "\<exists>c. Load os appName = Inr (c, True) \<and> validateConfig c = None \<and>
           loggerInit os (Logging c) = None \<and> fst (reloadConfig os h cfg) = h(cfg := c)"
    if "fst (reloadConfig os h cfg) \<noteq> h"
    using that Load_valid [of os appName]
    by (auto simp: reloadConfig_heap split: sum.splits prod.splits option.splits bool.splits)
  show ?thesis using a b c by blast
qed


lemmas config_defs =
  startConfig_def defaultConfig_def appName_def joinPath_def configDir_def configPath_def
  defaultConfigBase_def minute_def second_def validateConfig_def Load_def Save_def

theorem failed_reload_keeps_config_witness:
  "snd (snd (reloadConfig zeroRetries defaults 0)) =
     Some (Wrapped ''failed to load new configuration''
            (Msg ''invalid internal server configuration'')) \<and>
   fst (reloadConfig zeroRetries defaults 0) = defaults \<and>
   handleSignals_loop [(SIGHUP, zeroRetries)] defaults 0 =
     (defaults, [Log LevelError ''Failed to reload configuration''], False) \<and>
   snd (snd (reloadConfig otherHost defaults 0)) = None \<and>
   fst (reloadConfig otherHost defaults 0) \<noteq> defaults \<and>
   fst (reloadConfig otherHost defaults 0) =
     defaults(0 := (startConfig appName)
                \<lparr> SMTP := (SMTP (startConfig appName)) \<lparr> Host := ''smtp.example.org'' \<rparr> \<rparr>)"
  using failed_reload_keeps_config [of zeroRetries defaults 0 "[]"]
        failed_reload_keeps_config [of otherHost defaults 0 "[]"]
  by (auto simp: reloadConfig_def noFile_def otherHost_def zeroRetries_def defaults_def
      config_defs fun_eq_iff)

lemma Load_positive: "Load os name = Inr (c, ex) \<Longrightarrow> 0 < MaxRetries (Server c)"
  using Load_valid [of os name c ex] by (simp add: validateConfig_None_iff)

lemma reloadConfig_positive:
  "0 < MaxRetries (Server (h cfg)) \<Longrightarrow>
   0 < MaxRetries (Server (fst (reloadConfig os h cfg) cfg))"
  using Load_positive [of os appName]
  by (auto simp: reloadConfig_heap split: sum.splits prod.splits option.splits bool.splits)

lemma handleSignals_loop_positive:
  "0 < MaxRetries (Server (h cfg)) \<Longrightarrow>
   0 < MaxRetries (Server (fst (handleSignals_loop sigs h cfg) cfg))"
proof (induction sigs arbitrary: h)
  case Nil
  then show ?case by simp
next
  case (Cons s sigs)
  obtain sig os where s: "s = (sig, os)" by (cases s)
  show ?case
  proof (cases sig)
    case SIGHUP
    have "0 < MaxRetries (Server (fst (reloadConfig os h cfg) cfg))"
      using Cons.prems by (rule reloadConfig_positive)
    then have "0 < MaxRetries (Server
        (fst (handleSignals_loop sigs (fst (reloadConfig os h cfg)) cfg) cfg))"
      by (rule Cons.IH)
    with s SIGHUP show ?thesis
      by (auto split: prod.splits option.splits)
  next
    case SIGINT
    with s Cons.prems show ?thesis by simp
  next
    case SIGTERM
    with s Cons.prems show ?thesis by simp
  qed
qed


lemma handleSignals_heap:
  "fst (handleSignals sigs h cfg) = fst (handleSignals_loop sigs h cfg)"
  by (cases "handleSignals_loop sigs h cfg") (simp add: handleSignals_def)

lemma main_Serving:
  "main os h a = (evs, Serving h' sigCfg accCfg) \<Longrightarrow>
   sigCfg = a \<and> accCfg = a \<and> (\<exists>c ex. Load os appName = Inr (c, ex) \<and> h' = h(a := c))"
  by (auto simp: main_def Let_def split: sum.splits prod.splits option.splits)

text \<open>
  C7. \<open>validateConfig\<close> accepts a configuration only if the five SMTP fields and the
  internal listen address are non-empty and timeout, retry delay and maximum retry count
  are positive, so it rejects every configuration with \<open>MaxRetries \<le> 0\<close>. \<open>Load\<close>
  returns only validated configurations; the object that \<open>main\<close> hands to its goroutines
  has \<open>MaxRetries > 0\<close>, and the signal handler keeps it so through every reload.
\<close>

theorem validation_guards_delivery:
  "(validateConfig c = None \<longrightarrow>
      Host (SMTP c) \<noteq> [] \<and> Port (SMTP c) \<noteq> [] \<and> FromAddr (SMTP c) \<noteq> [] \<and>
      AuthUser (SMTP c) \<noteq> [] \<and> AuthPass (SMTP c) \<noteq> [] \<and>
      InternalAddr (Server c) \<noteq> [] \<and> 0 < Timeout (Server c) \<and>
      0 < RetryDelay (Server c) \<and> 0 < MaxRetries (Server c)) \<and>
   (MaxRetries (Server c) \<le> 0 \<longrightarrow> validateConfig c \<noteq> None) \<and>
   (\<forall>c' ex. Load os name = Inr (c', ex) \<longrightarrow>
      validateConfig c' = None \<and> 0 < MaxRetries (Server c')) \<and>
   (\<forall>evs h' sigCfg accCfg. main os h a = (evs, Serving h' sigCfg accCfg) \<longrightarrow>
      sigCfg = accCfg \<and> 0 < MaxRetries (Server (h' accCfg))) \<and>
   (0 < MaxRetries (Server (h cfg)) \<longrightarrow>
      0 < MaxRetries (Server (fst (reloadConfig os h cfg) cfg)) \<and>
      0 < MaxRetries (Server (fst (handleSignals sigs h cfg) cfg)))"
proof -
  have v: "validateConfig c = None \<longrightarrow>
      Host (SMTP c) \<noteq> [] \<and> Port (SMTP c) \<noteq> [] \<and> FromAddr (SMTP c) \<noteq> [] \<and>
      AuthUser (SMTP c) \<noteq> [] \<and> AuthPass (SMTP c) \<noteq> [] \<and>
      InternalAddr (Server c) \<noteq> [] \<and> 0 < Timeout (Server c) \<and>
      0 < RetryDelay (Server c) \<and> 0 < MaxRetries (Server c)"
    by (simp add: validateConfig_None_iff)
  have r: "MaxRetries (Server c) \<le> 0 \<longrightarrow> validateConfig c \<noteq> None"
    by (simp add: validateConfig_def)
  have l: "\<forall>c' ex. Load os name = Inr (c', ex) \<longrightarrow>
      validateConfig c' = None \<and> 0 < MaxRetries (Server c')"
    using Load_valid [of os name] Load_positive [of os name] by blast
  have m: "sigCfg = accCfg \<and> 0 < MaxRetries (Server (h' accCfg))"
    if "main os h a = (evs, Serving h' sigCfg accCfg)" for evs h' sigCfg accCfg
    using main_Serving [OF that] Load_positive [of os appName] by auto
  have s: "0 < MaxRetries (Server (fst (reloadConfig os h cfg) cfg)) \<and>
      0 < MaxRetries (Server (fst (handleSignals sigs h cfg) cfg))"
    if "0 < MaxRetries (Server (h cfg))"
    using that reloadConfig_positive [of h cfg os] handleSignals_loop_positive [of h cfg sigs]
    by (simp add: handleSignals_heap)
  show ?thesis using v r l m s by blast
qed

theorem validation_guards_delivery_witness:
  "validateConfig (startConfig appName) = None \<and>
   0 < MaxRetries (Server (startConfig appName)) \<and>
   MaxRetries (Server ((startConfig appName)
      \<lparr> Server := (Server (startConfig appName)) \<lparr> MaxRetries := 0 \<rparr> \<rparr>)) \<le> 0 \<and>
   validateConfig ((startConfig appName)
      \<lparr> Server := (Server (startConfig appName)) \<lparr> MaxRetries := 0 \<rparr> \<rparr>) =
     Some (Msg ''invalid internal server configuration'') \<and>
   Load zeroRetries appName = Inl (Msg ''invalid internal server configuration'') \<and>
   Load otherHost appName =
     Inr ((startConfig appName)
            \<lparr> SMTP := (SMTP (startConfig appName)) \<lparr> Host := ''smtp.example.org'' \<rparr> \<rparr>, True) \<and>
   main otherHost defaults 0 =
     ([Log LevelInfo ''Starting Mail Hub Relay Service''],
      Serving (defaults(0 := (startConfig appName)
            \<lparr> SMTP := (SMTP (startConfig appName)) \<lparr> Host := ''smtp.example.org'' \<rparr> \<rparr>)) 0 0) \<and>
   0 < MaxRetries (Server (defaults 0)) \<and>
   MaxRetries (Server (fst (handleSignals [(SIGHUP, zeroRetries), (SIGHUP, otherHost)]
                              defaults 0) 0)) = 3"
  using validation_guards_delivery [of "startConfig appName" otherHost appName defaults 0 0
          "[(SIGHUP, zeroRetries), (SIGHUP, otherHost)]"]
        validation_guards_delivery [of "(startConfig appName)
            \<lparr> Server := (Server (startConfig appName)) \<lparr> MaxRetries := 0 \<rparr> \<rparr>"
          zeroRetries appName defaults 0 0 "[]"]
  by (simp add: main_def handleSignals_def reloadConfig_def noFile_def otherHost_def
      zeroRetries_def defaults_def config_defs)

text \<open>
  C10. When \<open>os.Stat\<close> does not find the configuration file, \<open>reloadConfig\<close> returns an
  error and leaves the heap as it was; when the directory can be created, \<open>Load\<close> itself
  succeeds with the defaults and the error is the one for a missing file. \<open>main\<close> in the
  same situation (with logger and listener available) serves with the defaults.
\<close>

theorem reload_rejects_missing_file:
  assumes "stat os (configPath appName) = Some serr"
  shows "(\<exists>err. reloadConfig os h cfg = (h, [], Some err)) \<and>
         (mkdirAll os (configDir appName) = None \<longrightarrow>
            Load os appName = Inr (startConfig appName, False) \<and>
            reloadConfig os h cfg = (h, [], Some (Msg ''configuration file not found''))) \<and>
         (mkdirAll os (configDir appName) = None \<and>
          loggerInit os (Logging (startConfig appName)) = None \<and>
          netListen os (InternalAddr (Server (startConfig appName))) = None \<longrightarrow>
            (\<exists>evs. main os h a = (evs, Serving (h(a := startConfig appName)) a a)))"
proof -
  have load: "Load os appName =
     (case mkdirAll os (configDir appName) of
        Some err \<Rightarrow> Inl (Wrapped ''failed to create config directory'' err)
      | None \<Rightarrow> Inr (startConfig appName, False))"
    using Load_missing [OF assms] by (simp add: startConfig_valid split: option.split)
  have a: "\<exists>err. reloadConfig os h cfg = (h, [], Some err)"
    by (simp add: reloadConfig_def load split: option.split)
  have b: "Load os appName = Inr (startConfig appName, False) \<and>
           reloadConfig os h cfg = (h, [], Some (Msg ''configuration file not found''))"
    if "mkdirAll os (configDir appName) = None"
    using that by (simp add: reloadConfig_def load)
  have c: "\<exists>evs. main os h a = (evs, Serving (h(a := startConfig appName)) a a)"
    if "mkdirAll os (configDir appName) = None \<and>
        loggerInit os (Logging (startConfig appName)) = None \<and>
        netListen os (InternalAddr (Server (startConfig appName))) = None"
    using that by (simp add: main_def load Let_def)
  show ?thesis using a b c by blast
qed

theorem reload_rejects_missing_file_witness:
  "stat noFile (configPath appName) = Some (External ''no such file or directory'') \<and>
   mkdirAll noFile (configDir appName) = None \<and>
   loggerInit noFile (Logging (startConfig appName)) = None \<and>
   netListen noFile (InternalAddr (Server (startConfig appName))) = None \<and>
   Load noFile appName = Inr (startConfig appName, False) \<and>
   reloadConfig noFile defaults 0 =
     (defaults, [], Some (Msg ''configuration file not found'')) \<and>
   main noFile defaults 0 =
     ([Log LevelInfo ''Starting Mail Hub Relay Service''],
      Serving (defaults(0 := startConfig appName)) 0 0)"
  using reload_rejects_missing_file
          [of noFile "External ''no such file or directory''" defaults 0 0]
  by (simp add: main_def reloadConfig_def noFile_def defaults_def config_defs)

text \<open>
  C4. Startup when the listen address is taken: \<open>main\<close> logs the error and returns, and
  the process ends with status 0. When the configuration is invalid or the logger cannot
  be initialised, \<open>main\<close> calls \<open>os.Exit(1)\<close>.
\<close>

theorem listen_failure_exit_status:
  "main portTaken defaults 0 =
     ([Log LevelInfo ''Starting Mail Hub Relay Service'',
       Log LevelError ''Failed to start TCP listener'', LoggerShutdown], Exit 0) \<and>
   main zeroRetries defaults 0 = ([Stderr ''Failed to load configuration''], Exit 1) \<and>
   main noLogger defaults 0 = ([Stderr ''Failed to initialize logger''], Exit 1)"
  by (simp add: main_def noFile_def zeroRetries_def noLogger_def portTaken_def defaults_def
      config_defs)

section \<open>Connections\<close>

lemma written_append: "written (xs @ ys) = written xs @ written ys"
  by (induction xs rule: written.induct) simp_all

lemma isDelivery_written: "list_all isDelivery evs \<Longrightarrow> written evs = []"
  by (induction evs rule: written.induct) simp_all

lemma isDelivery_ConnClose: "list_all isDelivery evs \<Longrightarrow> filter (\<lambda>ev. ev = ConnClose) evs = []"
  by (induction evs) auto

lemma attemptBody_isDelivery: "list_all isDelivery (fst (attemptBody env e c a))"
  by (simp add: attemptBody_def sendEmail_def smtpCall_def Let_def
      split: option.split select_case.split)

lemma loop_isDelivery: "list_all isDelivery (processEmail_loop env e h cfg a)"
proof (induction "nat (MaxRetries (Server (h cfg)) - a)" arbitrary: a)
  case 0
  then have "\<not> a < MaxRetries (Server (h cfg))" by linarith
  then show ?case using loop_stop [of a h cfg env e] by simp
next
  case (Suc n)
  then have lt: "a < MaxRetries (Server (h cfg))" by linarith
  from Suc.hyps(2) have n: "n = nat (MaxRetries (Server (h cfg)) - (a + 1))" by linarith
  show ?case
    using Suc.hyps(1) [OF n] attemptBody_isDelivery [of env e "h cfg" a]
    by (simp add: loop_step [of a h cfg env e, OF lt])
qed

lemma processEmail_isDelivery: "list_all isDelivery (processEmail env req h cfg)"
  by (simp add: processEmail_def loop_isDelivery)

text \<open>
  C6. When the stream does not decode, the handler logs the decode error and closes the
  connection, and that is all it does: no transport call is made. On every path the
  handler never writes to the connection, and it closes the connection exactly once, as
  its last action.
\<close>

theorem decode_failure_closes_silently:
  "(\<forall>err. decodeResult c = Inl err \<longrightarrow>
      handleConnection env c h cfg =
        [Log LevelInfo ''New connection received'', Log LevelDebug ''Decoding email request'',
         Log LevelError ''Failed to decode email request'', ConnClose] \<and>
      transportCalls (handleConnection env c h cfg) = 0) \<and>
   written (handleConnection env c h cfg) = [] \<and>
   last (handleConnection env c h cfg) = ConnClose \<and>
   length (filter (\<lambda>ev. ev = ConnClose) (handleConnection env c h cfg)) = 1"
proof -
  have a: "handleConnection env c h cfg =
        [Log LevelInfo ''New connection received'', Log LevelDebug ''Decoding email request'',
         Log LevelError ''Failed to decode email request'', ConnClose] \<and>
      transportCalls (handleConnection env c h cfg) = 0"
    if "decodeResult c = Inl err" for err
    using that by (simp add: handleConnection_def transportCalls_def)
  have w: "written (handleConnection env c h cfg) = []"
    using isDelivery_written [OF processEmail_isDelivery [of env _ h cfg]]
    by (simp add: handleConnection_def written_append split: sum.split)
  have l: "last (handleConnection env c h cfg) = ConnClose"
    by (simp add: handleConnection_def)
  have n: "length (filter (\<lambda>ev. ev = ConnClose) (handleConnection env c h cfg)) = 1"
    using isDelivery_ConnClose [OF processEmail_isDelivery [of env _ h cfg]]
    by (simp add: handleConnection_def split: sum.split)
  show ?thesis using a w l n by blast
qed

theorem decode_failure_closes_silently_witness:
  "decodeResult garbled = Inl (External ''invalid character'') \<and>
   handleConnection flaky garbled defaults 0 =
     [Log LevelInfo ''New connection received'', Log LevelDebug ''Decoding email request'',
      Log LevelError ''Failed to decode email request'', ConnClose] \<and>
   transportCalls (handleConnection flaky garbled defaults 0) = 0 \<and>
   written (handleConnection flaky garbled defaults 0) = []"
  using decode_failure_closes_silently [of garbled flaky defaults 0]
  by (simp add: garbled_def transportCalls_def)

section \<open>The request producers\<close>

text \<open>
  C8. With the relay reachable, the sendmail-compatible client writes the bytes of
  \<open>json.Marshal\<close> followed by a newline; the form adapter writes the bytes of
  \<open>json.Marshal\<close> and nothing after them.
\<close>

theorem producers_written_bytes:
  "written (fst (mhrc_sendToMHRS (relayUp json) hello (startConfig appName))) =
     [json @ [CHR 0x0A]] \<and>
   written (fst (submitf_sendToMHRS (relayUp json) contact (startConfig appName))) = [json] \<and>
   json \<noteq> json @ [CHR 0x0A]"
  by (simp add: mhrc_sendToMHRS_def submitf_sendToMHRS_def relayUp_def Let_def)

section \<open>Deliveries and reloads\<close>

lemma attemptBody_during_same: "attemptBody_during env e c c a = attemptBody env e c a"
  by (simp add: attemptBody_during_def attemptBody_def)






lemma isTransport_outline [simp]: "isTransport (outline ev) = isTransport ev"
  by (cases ev) simp_all

lemma isTransport_untimed [simp]: "isTransport (untimed ev) = isTransport ev"
  by (cases ev) simp_all

lemma isSelect_outline [simp]: "isSelect (outline ev) = isSelect ev"
  by (cases ev) simp_all




lemma Log_erased: "untimed (outline ev) = Log l m \<Longrightarrow> ev = Log l m"
  by (cases ev) simp_all























lemma attemptBody_readsFrom:
  "From e = FromAddr (SMTP c) \<Longrightarrow> list_all (readsFrom c) (fst (attemptBody env e c a))"
  by (simp add: attemptBody_def sendEmail_def smtpCall_def Let_def
      split: option.split select_case.split)

lemma loop_readsFrom:
  "From e = FromAddr (SMTP (h cfg)) \<Longrightarrow>
   list_all (readsFrom (h cfg)) (processEmail_loop env e h cfg a)"
proof (induction "nat (MaxRetries (Server (h cfg)) - a)" arbitrary: a)
  case 0
  then have "\<not> a < MaxRetries (Server (h cfg))" by linarith
  then show ?case using loop_stop [of a h cfg env e] by simp
next
  case (Suc n)
  then have lt: "a < MaxRetries (Server (h cfg))" by linarith
  from Suc.hyps(2) have n: "n = nat (MaxRetries (Server (h cfg)) - (a + 1))" by linarith
  show ?case
    using Suc.hyps(1) [OF n Suc.prems] attemptBody_readsFrom [OF Suc.prems, of env a]
    by (simp add: loop_step [of a h cfg env e, OF lt])
qed

lemma processEmail_singleSnapshot: "singleSnapshot (h cfg) (processEmail env req h cfg)"
  using loop_readsFrom [of "buildEmail req (h cfg)" h cfg env 0]
  by (simp add: singleSnapshot_def processEmail_def buildEmail_def)

lemma reloading_without_success:
  "(\<forall>r \<in> set reloads. \<forall>os. fst r = Some os \<or> snd r = Some os \<longrightarrow>
      snd (snd (reloadConfig os h sigCfg)) \<noteq> None) \<Longrightarrow>
   processEmail_loop_reloading env e reloads sigCfg h cfg a = processEmail_loop env e h cfg a"
proof (induction reloads arbitrary: a)
  case Nil
  show ?case by simp
next
  case (Cons r reloads)
  obtain r1 r2 where r: "r = (r1, r2)" by (cases r)
  have same: "applyReload x sigCfg h = h" if "x = r1 \<or> x = r2" for x
  proof (cases x)
    case None
    then show ?thesis by (simp add: applyReload_def)
  next
    case (Some os)
    with Cons.prems r that obtain err where "snd (snd (reloadConfig os h sigCfg)) = Some err"
      by auto
    then have "fst (reloadConfig os h sigCfg) = h" by (rule reloadConfig_error_heap)
    with Some show ?thesis by (simp add: applyReload_def)
  qed
  have IH: "processEmail_loop_reloading env e reloads sigCfg h cfg (a + 1) =
            processEmail_loop env e h cfg (a + 1)"
    using Cons.IH [of "a + 1"] Cons.prems by simp
  show ?case
  proof (cases "a < MaxRetries (Server (h cfg))")
    case True
    then show ?thesis
      unfolding r
      by (simp add: same IH attemptBody_during_same loop_step [of a h cfg env e]
          split: prod.split control.split)
  next
    case False
    then show ?thesis unfolding r by (simp add: loop_stop [of a h cfg env e])
  qed
qed

text \<open>
  C5 does not hold: the signal handler and the deliveries hold the same pointer, and a
  reload that succeeds overwrites the object behind it. Here the delivery makes its first
  attempt with the host of the old configuration and, after a reload during the first
  wait, its later attempts with the host of the new one.
\<close>

theorem reload_during_delivery_counterexample:
  "dialled (processEmail_reloading flaky hello [(None, Some otherHost)] 0 defaults 0) =
     [''smtp.gmail.com:587'', ''smtp.example.org:587'', ''smtp.example.org:587''] \<and>
   Host (SMTP (defaults 0)) = ''smtp.gmail.com'' \<and>
   Host (SMTP (fst (reloadConfig otherHost defaults 0) 0)) = ''smtp.example.org'' \<and>
   \<not> singleSnapshot (defaults 0)
       (processEmail_reloading flaky hello [(None, Some otherHost)] 0 defaults 0) \<and>
   \<not> singleSnapshot (fst (reloadConfig otherHost defaults 0) 0)
       (processEmail_reloading flaky hello [(None, Some otherHost)] 0 defaults 0)"
  by (simp add: processEmail_reloading_def processEmail_loop.simps attemptBody_during_def
      attemptBody_def sendEmail_def smtpCall_def buildEmail_def flaky_def singleSnapshot_def
      applyReload_def reloadConfig_def noFile_def otherHost_def defaults_def config_defs)

text \<open>
  C5, amended. A reload that succeeds writes the new configuration into the object at
  the pointer it was given, which is the object the deliveries read. A reload that fails
  leaves that object as it was, and a delivery during which no reload succeeds is the
  undisturbed delivery: every transport call and every wait of it is made from the one
  configuration that the object held at the start.
\<close>

theorem reload_shares_config_object:
  "(\<forall>c. Load os appName = Inr (c, True) \<and> loggerInit os (Logging c) = None \<longrightarrow>
      fst (reloadConfig os h cfg) cfg = c) \<and>
   (snd (snd (reloadConfig os h cfg)) \<noteq> None \<longrightarrow> fst (reloadConfig os h cfg) cfg = h cfg) \<and>
   ((\<forall>r \<in> set reloads. \<forall>os'. fst r = Some os' \<or> snd r = Some os' \<longrightarrow>
        snd (snd (reloadConfig os' h sigCfg)) \<noteq> None) \<longrightarrow>
      processEmail_reloading env req reloads sigCfg h cfg = processEmail env req h cfg \<and>
      singleSnapshot (h cfg) (processEmail_reloading env req reloads sigCfg h cfg))"
proof -
  have a: "fst (reloadConfig os h cfg) cfg = c"
    if "Load os appName = Inr (c, True) \<and> loggerInit os (Logging c) = None" for c
    using that by (simp add: reloadConfig_def)
  have b: "fst (reloadConfig os h cfg) cfg = h cfg"
    if "snd (snd (reloadConfig os h cfg)) \<noteq> None"
    using that reloadConfig_error_heap [of os h cfg] by auto
  have c: "processEmail_reloading env req reloads sigCfg h cfg = processEmail env req h cfg \<and>
      singleSnapshot (h cfg) (processEmail_reloading env req reloads sigCfg h cfg)"
    if "\<forall>r \<in> set reloads. \<forall>os'. fst r = Some os' \<or> snd r = Some os' \<longrightarrow>
          snd (snd (reloadConfig os' h sigCfg)) \<noteq> None"
  proof -
    have "processEmail_reloading env req reloads sigCfg h cfg = processEmail env req h cfg"
      using reloading_without_success [OF that]
      by (simp add: processEmail_reloading_def processEmail_def)
    then show ?thesis by (simp add: processEmail_singleSnapshot)
  qed
  show ?thesis using a b c by blast
qed

theorem reload_shares_config_object_witness:
  "Load otherHost appName =
     Inr ((startConfig appName)
            \<lparr> SMTP := (SMTP (startConfig appName)) \<lparr> Host := ''smtp.example.org'' \<rparr> \<rparr>, True) \<and>
   loggerInit otherHost (Logging ((startConfig appName)
            \<lparr> SMTP := (SMTP (startConfig appName)) \<lparr> Host := ''smtp.example.org'' \<rparr> \<rparr>)) = None \<and>
   fst (reloadConfig otherHost defaults 0) 0 =
     (startConfig appName) \<lparr> SMTP := (SMTP (startConfig appName)) \<lparr> Host := ''smtp.example.org'' \<rparr> \<rparr> \<and>
   snd (snd (reloadConfig zeroRetries defaults 0)) \<noteq> None \<and>
   fst (reloadConfig zeroRetries defaults 0) 0 = defaults 0 \<and>
   dialled (processEmail_reloading flaky hello
              [(Some zeroRetries, None), (None, Some zeroRetries)] 0 defaults 0) =
     [''smtp.gmail.com:587'', ''smtp.gmail.com:587'', ''smtp.gmail.com:587''] \<and>
   singleSnapshot (defaults 0)
     (processEmail_reloading flaky hello
        [(Some zeroRetries, None), (None, Some zeroRetries)] 0 defaults 0)"
  using reload_shares_config_object
          [of otherHost defaults 0 "[(Some zeroRetries, None), (None, Some zeroRetries)]" 0
             flaky hello]
        reload_shares_config_object
          [of zeroRetries defaults 0 "[(Some zeroRetries, None), (None, Some zeroRetries)]" 0
             flaky hello]
  by (simp add: processEmail_reloading_def processEmail_def processEmail_loop.simps
      attemptBody_during_def attemptBody_def sendEmail_def smtpCall_def buildEmail_def
      flaky_def singleSnapshot_def applyReload_def reloadConfig_def noFile_def otherHost_def
      zeroRetries_def defaults_def config_defs)

end
